theory Spec2Isabelle
  imports Main "HOL-Library.AList"
begin

section \<open>Python values shared by the embedded modules\<close>

text \<open>
  Every \<^verbatim>\<open>raise\<close> and every failing \<^verbatim>\<open>assert\<close> of the source is a value of
  this type; a function that can raise returns \<open>error + 'a\<close> with \<open>Inl\<close> the exception.
\<close>

datatype error =
    ValueError string
  | OverflowError string
  | KeyError string
  | IndexError
  | AssertionError
  | NotImplementedError string
  | DuplicateRegistration string

text \<open>Python's \<^verbatim>\<open>str(n)\<close> and \<^verbatim>\<open>'{}'.format(n)\<close> for an integer: decimal digits.\<close>

definition digit_char :: "nat \<Rightarrow> char" where
  "digit_char d = ''0123456789'' ! d"

function str_nat :: "nat \<Rightarrow> string" where
  "str_nat n = (if n < 10 then [digit_char n] else str_nat (n div 10) @ [digit_char (n mod 10)])"
  by pat_completeness auto
termination
  by (relation "measure id") auto

definition str_int :: "int \<Rightarrow> string" where
  "str_int i = (if i < 0 then CHR ''-'' # str_nat (nat (- i)) else str_nat (nat i))"

text \<open>\<^verbatim>\<open>sep.join(xs)\<close> and \<^verbatim>\<open>s.replace(a, b)\<close> for single characters.\<close>

fun join :: "string \<Rightarrow> string list \<Rightarrow> string" where
  "join sep [] = []"
| "join sep [x] = x"
| "join sep (x # y # ys) = x @ sep @ join sep (y # ys)"

definition replace_char :: "char \<Rightarrow> char \<Rightarrow> string \<Rightarrow> string" where
  "replace_char a b s = map (\<lambda>c. if c = a then b else c) s"

text \<open>\<^verbatim>\<open>range(a, b)\<close> over Python integers.\<close>

definition py_range :: "int \<Rightarrow> int \<Rightarrow> int list" where
  "py_range a b = [a..b - 1]"

text \<open>A \<^verbatim>\<open>for\<close> loop over a list whose body updates a state and may raise.\<close>

fun for_each :: "'a list \<Rightarrow> ('a \<Rightarrow> 's \<Rightarrow> error + 's) \<Rightarrow> 's \<Rightarrow> error + 's" where
  "for_each [] body s = Inr s"
| "for_each (x # xs) body s =
     (case body x s of Inl err \<Rightarrow> Inl err | Inr s' \<Rightarrow> for_each xs body s')"

section \<open>The intermediate representation\<close>

text \<open>
  hidet/ir/dialects/lowlevel.py declares \<^verbatim>\<open>VoidType\<close> and \<^verbatim>\<open>PointerType(base_type)\<close>;
  \<^verbatim>\<open>ScalarType\<close>, \<^verbatim>\<open>TensorType\<close> and \<^verbatim>\<open>ReferenceType\<close> are the other type nodes the
  embedded modules build. A base type given by its name (\<^verbatim>\<open>PointerType('uint32')\<close>) is
  the scalar type of that name.
\<close>

datatype type_node =
    ScalarType string
  | TensorType string "int list"
  | VoidType
  | PointerType type_node
  | ReferenceType type_node

text \<open>
  A Reduce Operation is a named variant; what it computes is given to the lowering through
  its interface (see \<open>reduce_interface\<close> below).
\<close>

datatype reduce_operation = ReduceOperation string

text \<open>
  Expressions. \<open>IntLiteral\<close> is a Python integer standing where an expression is expected
  (\<^verbatim>\<open>rc[i]\<close>, \<^verbatim>\<open>AssignStmt(acc_index, 0)\<close>, the \<^verbatim>\<open>cp_size\<close> operand). \<open>BinaryOp\<close> is any
  binary operator node, tagged with its class name. \<open>Cast\<close> is \<^verbatim>\<open>Cast(expr, target_type)\<close> of
  lowlevel.py.

  A compute node carries its identity as its first field: Python compares and hashes
  nodes by identity, so two nodes are the same dictionary key exactly when they are the
  same object. \<^verbatim>\<open>tensor_compute\<close> and \<^verbatim>\<open>scalar_compute\<close> are \<open>None\<close> for an input node.
  \<open>OtherTensorCompute\<close> and \<open>OtherScalarCompute\<close> stand for every compute class that is not
  one of GridCompute, ReduceCompute and ArgReduceCompute, with its class name.
\<close>

datatype expr =
    Var string type_node
  | Constant int type_node
  | IntLiteral int
  | BinaryOp string expr expr
  | TensorElement expr "expr list"
  | Call string "expr list"
  | Cast expr type_node
  | TensorNode nat string type_node "tensor_compute option"
  | ScalarNode nat string string "scalar_compute option"
and tensor_compute =
    GridCompute "int list" "expr list" expr
  | OtherTensorCompute string
and scalar_compute =
    ReduceCompute "int list" "expr list" expr reduce_operation
  | ArgReduceCompute int expr expr reduce_operation string
  | OtherScalarCompute string

text \<open>
  Statements. The body of a \<open>ForStmt\<close> and the branches of an \<open>IfStmt\<close> are \<open>None\<close> until the
  statement builder closes their scope. \<open>AsmStmt\<close> has the template, the labelled output
  and input operands and the volatile flag; \<open>AsmCall\<close> is the \<^verbatim>\<open>asm(template, outputs,
  inputs)\<close> helper of the script language, whose operands carry no label yet.
\<close>

datatype stmt =
    EvaluateStmt expr
  | DeclareStmt expr "expr option"
  | AssignStmt expr expr
  | BufferStoreStmt expr "expr list" expr
  | ForStmt expr int "stmt option"
  | IfStmt expr "stmt option" "stmt option"
  | SeqStmt "stmt list"
  | AsmStmt string "(string \<times> expr) list" "(string \<times> expr) list" bool
  | AsmCall string "expr list" "expr list"

section \<open>hidet/ir/dtypes/uint64.py\<close>

text \<open>
  The argument of \<^verbatim>\<open>UInt64.constant\<close> is typed \<^verbatim>\<open>Any\<close>; the model covers the two
  kinds of number the method distinguishes. A finite float is the dyadic rational
  \<open>m * 2 ^ e\<close> it denotes; \<^verbatim>\<open>int(value)\<close> truncates it toward zero, raises
  OverflowError on an infinity and ValueError on a NaN.
\<close>

datatype pyfloat = FloatFinite int int | FloatInf | FloatNaN

datatype pyvalue = PyInt int | PyFloat pyfloat

definition trunc_div :: "int \<Rightarrow> int \<Rightarrow> int" where
  "trunc_div m d = (if 0 \<le> m then m div d else - ((- m) div d))"

fun int_of_pyfloat :: "pyfloat \<Rightarrow> error + int" where
  "int_of_pyfloat (FloatFinite m e) =
     Inr (if 0 \<le> e then m * 2 ^ nat e else trunc_div m (2 ^ nat (- e)))"
| "int_of_pyfloat FloatInf = Inl (OverflowError ''cannot convert float infinity to integer'')"
| "int_of_pyfloat FloatNaN = Inl (ValueError ''cannot convert float NaN to integer'')"

fun py_int :: "pyvalue \<Rightarrow> error + int" where
  "py_int (PyInt v) = Inr v"
| "py_int (PyFloat f) = int_of_pyfloat f"

definition uint64_name :: string where
  "uint64_name = ''uint64''"

text \<open>
  \<^verbatim>\<open>UInt64.constant\<close>. The first component lists the warnings issued
  (\<^verbatim>\<open>warnings.warn\<close>), the second is the returned constant or the exception.
\<close>

definition uint64_constant :: "pyvalue \<Rightarrow> string list \<times> (error + expr)" where
  "uint64_constant value =
     (let warned = (case value of
                      PyFloat _ \<Rightarrow> [''Converting float to int when creating '' @ uint64_name @ '' constant.'']
                    | PyInt _ \<Rightarrow> [])
      in (warned,
          case py_int value of
            Inl err \<Rightarrow> Inl err
          | Inr v \<Rightarrow>
              if \<not> (0 \<le> v \<and> v \<le> 18446744073709551615)
              then Inl (ValueError (''Value '' @ str_int v @ '' is out of range for '' @ uint64_name @ ''.''))
              else Inr (Constant v (ScalarType uint64_name))))"

definition uint64_one :: "string list \<times> (error + expr)" where
  "uint64_one = uint64_constant (PyInt 1)"

definition uint64_zero :: "string list \<times> (error + expr)" where
  "uint64_zero = uint64_constant (PyInt 0)"

definition uint64_min_value :: "string list \<times> (error + expr)" where
  "uint64_min_value = uint64_constant (PyInt 0)"

definition uint64_max_value :: "string list \<times> (error + expr)" where
  "uint64_max_value = uint64_constant (PyInt 18446744073709551615)"

section \<open>Device functions and the symbol registry\<close>

record func =
  func_name :: string
  func_kind :: string
  func_params :: "expr list"
  func_local_vars :: "expr list"
  func_body :: "stmt list"

type_synonym registry = "(string \<times> func) list"

text \<open>
  Modelled from the spec: \<^verbatim>\<open>register_primitive_function\<close> (hidet/ir/primitives/func.py) is
  not among the sources. The registry is additive only, and registering a name a second
  time is the duplicate-registration error.
\<close>

definition register_primitive_function :: "string \<Rightarrow> func \<Rightarrow> registry \<Rightarrow> error + registry" where
  "register_primitive_function name f reg =
     (if name \<in> set (map fst reg) then Inl (DuplicateRegistration name)
      else Inr (reg @ [(name, f)]))"

text \<open>
  Modelled from the spec: \<^verbatim>\<open>call_cuda\<close> (hidet/ir/primitives/cuda/funcs.py) is not among
  the sources. It returns a call expression bound to the device function registered under
  \<^verbatim>\<open>'cuda_' + func_name\<close>, looked up by name when the call is constructed.
\<close>

definition call_cuda :: "registry \<Rightarrow> string \<Rightarrow> expr list \<Rightarrow> error + expr" where
  "call_cuda reg name args =
     (if ''cuda_'' @ name \<in> set (map fst reg) then Inr (Call (''cuda_'' @ name) args)
      else Inl (KeyError (''cuda_'' @ name)))"

section \<open>hidet/ir/primitives/cuda/cp\_async.py\<close>

text \<open>\<^verbatim>\<open>resolve_name_cp_async\<close>; \<^verbatim>\<open>cache_level[0]\<close> raises IndexError on the empty string.\<close>

definition resolve_name_cp_async :: "int \<Rightarrow> string \<Rightarrow> int \<Rightarrow> error + string" where
  "resolve_name_cp_async cp_size cache_level prefetch_bytes =
     (let prefetch_part = (if prefetch_bytes \<noteq> 0 then ''_l2_'' @ str_int prefetch_bytes @ ''B'' else [])
      in case cache_level of
           [] \<Rightarrow> Inl IndexError
         | c # _ \<Rightarrow>
             (let cache_part = ''c'' @ [c]
              in Inr (''cp_async_size_'' @ str_int cp_size @ ''_'' @ cache_part @ prefetch_part)))"

text \<open>The dictionary \<^verbatim>\<open>{'always': 'ca', 'global': 'cg'}\<close> indexed by the cache level.\<close>

definition cache_level_code :: "string \<Rightarrow> error + string" where
  "cache_level_code cache_level =
     (case map_of [(''always'', ''ca''), (''global'', ''cg'')] cache_level of
        None \<Rightarrow> Inl (KeyError cache_level)
      | Some c \<Rightarrow> Inr c)"

definition cp_async_template :: "string \<Rightarrow> int \<Rightarrow> error + string" where
  "cp_async_template cache_level prefetch_bytes =
     (case cache_level_code cache_level of
        Inl err \<Rightarrow> Inl err
      | Inr c \<Rightarrow>
          Inr (''cp.async.'' @ c @ ''.shared.global''
               @ (if prefetch_bytes \<noteq> 0 then ''.L2::'' @ str_int prefetch_bytes @ ''B'' else [])
               @ '' [%0], [%1], %2, %3;''))"

text \<open>The script function \<^verbatim>\<open>cuda_cp_async\<close> generated for one parameter combination.\<close>

definition cuda_cp_async :: "string \<Rightarrow> string \<Rightarrow> int \<Rightarrow> func" where
  "cuda_cp_async fname template_string cp_size =
     \<lparr> func_name = fname, func_kind = ''cuda_device'',
       func_params = [Var ''dst'' (PointerType VoidType), Var ''src'' (PointerType VoidType),
                      Var ''src_size'' (ScalarType ''int32'')],
       func_local_vars = [],
       func_body =
         [DeclareStmt (Var ''dst_smem_ptr'' (ScalarType ''uint32''))
            (Some (Call ''cvta_generic_to_shared'' [Var ''dst'' (PointerType VoidType)])),
          AsmCall template_string []
            [Var ''dst_smem_ptr'' (ScalarType ''uint32''), Var ''src'' (PointerType VoidType),
             IntLiteral cp_size, Var ''src_size'' (ScalarType ''int32'')]] \<rparr>"

definition register_cp_async :: "registry \<Rightarrow> error + registry" where
  "register_cp_async =
     for_each [4, 8, 16] (\<lambda>cp_size.
       for_each [0, 64, 128, 256] (\<lambda>prefetch_bytes.
         for_each [''always'', ''global''] (\<lambda>cache_level reg.
           if cache_level = ''global'' \<and> cp_size \<noteq> 16 then Inr reg
           else (case resolve_name_cp_async cp_size cache_level prefetch_bytes of
                   Inl err \<Rightarrow> Inl err
                 | Inr nm \<Rightarrow>
                     (case cp_async_template cache_level prefetch_bytes of
                        Inl err \<Rightarrow> Inl err
                      | Inr template_string \<Rightarrow>
                          register_primitive_function (''cuda_'' @ nm)
                            (cuda_cp_async (''cuda_'' @ nm) template_string cp_size) reg)))))"

definition cuda_cp_async_commit_group :: func where
  "cuda_cp_async_commit_group =
     \<lparr> func_name = ''cuda_cp_async_commit_group'', func_kind = ''cuda_device'',
       func_params = [], func_local_vars = [],
       func_body = [AsmCall ''cp.async.commit_group;'' [] []] \<rparr>"

definition register_cp_async_commit_group :: "registry \<Rightarrow> error + registry" where
  "register_cp_async_commit_group reg =
     register_primitive_function (func_name cuda_cp_async_commit_group) cuda_cp_async_commit_group reg"

text \<open>The script function \<^verbatim>\<open>cuda_cp_async_wait_group\<close> generated for one value of \<^verbatim>\<open>groups\<close>.\<close>

definition cuda_cp_async_wait_group :: "int \<Rightarrow> func" where
  "cuda_cp_async_wait_group groups =
     \<lparr> func_name = ''cuda_cp_async_wait_group_'' @ str_int groups, func_kind = ''cuda_device'',
       func_params = [], func_local_vars = [],
       func_body = [AsmCall (''cp.async.commit_group '' @ str_int groups @ '';'') [] []] \<rparr>"

definition register_cp_async_wait_group :: "registry \<Rightarrow> error + registry" where
  "register_cp_async_wait_group =
     for_each (py_range 0 10) (\<lambda>groups reg.
       register_primitive_function (func_name (cuda_cp_async_wait_group groups))
         (cuda_cp_async_wait_group groups) reg)"

definition cuda_cp_async_wait_all :: func where
  "cuda_cp_async_wait_all =
     \<lparr> func_name = ''cuda_cp_async_wait_all'', func_kind = ''cuda_device'',
       func_params = [], func_local_vars = [],
       func_body = [AsmCall ''cp.async.wait_all;'' [] []] \<rparr>"

definition register_cp_async_wait_all :: "registry \<Rightarrow> error + registry" where
  "register_cp_async_wait_all reg =
     register_primitive_function (func_name cuda_cp_async_wait_all) cuda_cp_async_wait_all reg"

text \<open>
  The registry after the four \<^verbatim>\<open>@initialize()\<close> functions of the module have run, in the
  order of the file.
\<close>

definition cp_async_registry :: "error + registry" where
  "cp_async_registry =
     (case register_cp_async [] of Inl err \<Rightarrow> Inl err | Inr r1 \<Rightarrow>
      case register_cp_async_commit_group r1 of Inl err \<Rightarrow> Inl err | Inr r2 \<Rightarrow>
      case register_cp_async_wait_group r2 of Inl err \<Rightarrow> Inl err | Inr r3 \<Rightarrow>
      register_cp_async_wait_all r3)"

text \<open>
  \<^verbatim>\<open>cp_async\<close>. The parameters have their annotated types, so the two \<^verbatim>\<open>isinstance\<close>
  tests hold; \<open>src_size\<close> is \<open>None\<close> when the argument is omitted.
\<close>

definition cp_async ::
  "registry \<Rightarrow> expr \<Rightarrow> expr \<Rightarrow> int \<Rightarrow> expr option \<Rightarrow> string \<Rightarrow> int \<Rightarrow> error + expr" where
  "cp_async reg dst src cp_size src_size cache_level prefetch_bytes =
     (if \<not> (cp_size \<in> set [4, 8, 16])
      then Inl (ValueError (''cp_size must be either 4, 8, or 16, got '' @ str_int cp_size @ ''.''))
      else if \<not> (prefetch_bytes \<in> set [0, 64, 128, 256])
      then Inl (ValueError (''prefetch_bytes must be either None, 64, 128 or 256, got ''
                            @ str_int prefetch_bytes @ ''.''))
      else if cache_level \<notin> set [''global'', ''always'']
      then Inl (ValueError (''Cache level candidates: ['always', 'global'], got '' @ cache_level))
      else if cache_level = ''global'' \<and> cp_size \<noteq> 16
      then Inl (ValueError ''When cache_level is global, the cp_size must be 16.'')
      else (let src_size' = (case src_size of None \<Rightarrow> IntLiteral cp_size | Some e \<Rightarrow> e)
            in case resolve_name_cp_async cp_size cache_level prefetch_bytes of
                 Inl err \<Rightarrow> Inl err
               | Inr nm \<Rightarrow> call_cuda reg nm [dst, src, src_size']))"

definition cp_async_commit_group :: "registry \<Rightarrow> error + expr" where
  "cp_async_commit_group reg = call_cuda reg ''cp_async_commit_group'' []"

definition cp_async_wait_group :: "registry \<Rightarrow> int \<Rightarrow> error + expr" where
  "cp_async_wait_group reg n =
     (if \<not> (0 \<le> n \<and> n < 10) then Inl (ValueError ''n out of bound'')
      else call_cuda reg (''cp_async_wait_group_'' @ str_int n) [])"

definition cp_async_wait_all :: "registry \<Rightarrow> error + expr" where
  "cp_async_wait_all reg = call_cuda reg ''cp_async_wait_all'' []"

section \<open>hidet/ir/primitives/cuda/mma.py: registers per operand\<close>

text \<open>
  \<^verbatim>\<open>num_regs\<close>. \<^verbatim>\<open>ScalarType(short_dtype).nbytes()\<close> belongs to hidet/ir/type.py;
  the byte width of a type name is the parameter \<open>nbytes\<close>. The failing \<^verbatim>\<open>assert\<close>
  is the AssertionError.
\<close>

definition num_regs :: "(string \<Rightarrow> int) \<Rightarrow> string \<Rightarrow> int \<Rightarrow> error + int" where
  "num_regs nbytes short_dtype num_elements =
     (let num_bytes = nbytes short_dtype * num_elements
      in if num_bytes mod (4 * 32) \<noteq> 0 then Inl AssertionError
         else Inr (num_bytes div (4 * 32)))"

text \<open>
  Modelled from the spec: the byte widths of the element types the MMA table names
  (\<^verbatim>\<open>ScalarType.nbytes\<close> of hidet/ir/type.py is not among the sources): f16 and bf16 are
  16-bit, f32 and tf32 fill one 32-bit register.
\<close>

definition short_dtype_nbytes :: "string \<Rightarrow> int" where
  "short_dtype_nbytes short_dtype =
     (if short_dtype = ''f16'' \<or> short_dtype = ''bf16'' then 2
      else if short_dtype = ''f32'' \<or> short_dtype = ''tf32'' then 4
      else 0)"

section \<open>hidet/ir/primitives/cuda/mma.py: configurations and instructions\<close>

text \<open>
  The task mappings of hidet/ir/mapping.py as the configuration table writes them:
  the four primitive mappings and the product \<^verbatim>\<open>a * b\<close>.
\<close>

datatype task_mapping =
    row_repeat int int
  | col_repeat int int
  | row_spatial int int
  | col_spatial int int
  | compose task_mapping task_mapping

text \<open>
  The fields \<^verbatim>\<open>m\<close>, \<^verbatim>\<open>n\<close> and \<^verbatim>\<open>k\<close> are named \<open>mma_m\<close>, \<open>mma_n\<close> and \<open>mma_k\<close>.
\<close>

record MmaConfig =
  mma_m :: int
  mma_n :: int
  mma_k :: int
  input_dtype :: string
  output_dtype :: string
  a_load_map :: task_mapping
  b_load_map :: task_mapping
  c_store_map :: task_mapping
  a_elements :: int
  b_elements :: int
  c_elements :: int
  a_regs :: int
  b_regs :: int
  c_regs :: int

text \<open>\<^verbatim>\<open>MmaConfig.__init__\<close>: the three calls of \<^verbatim>\<open>num_regs\<close> may fail their assertion.\<close>

definition new_MmaConfig ::
  "int \<Rightarrow> int \<Rightarrow> int \<Rightarrow> string \<Rightarrow> string \<Rightarrow> task_mapping \<Rightarrow> task_mapping \<Rightarrow> task_mapping
     \<Rightarrow> error + MmaConfig" where
  "new_MmaConfig m' n' k' input_dtype' output_dtype' a_load_map' b_load_map' c_store_map' =
     (case num_regs short_dtype_nbytes input_dtype' (m' * k') of Inl err \<Rightarrow> Inl err | Inr ar \<Rightarrow>
      case num_regs short_dtype_nbytes input_dtype' (k' * n') of Inl err \<Rightarrow> Inl err | Inr br \<Rightarrow>
      case num_regs short_dtype_nbytes output_dtype' (m' * n') of Inl err \<Rightarrow> Inl err | Inr cr \<Rightarrow>
      Inr \<lparr> mma_m = m', mma_n = n', mma_k = k', input_dtype = input_dtype', output_dtype = output_dtype',
            a_load_map = a_load_map', b_load_map = b_load_map', c_store_map = c_store_map',
            a_elements = m' * k' div 32, b_elements = k' * n' div 32, c_elements = m' * n' div 32,
            a_regs = ar, b_regs = br, c_regs = cr \<rparr>)"

definition inst_name :: "MmaConfig \<Rightarrow> string" where
  "inst_name config =
     ''mma.sync.aligned.m'' @ str_int (mma_m config) @ ''n'' @ str_int (mma_n config)
       @ ''k'' @ str_int (mma_k config) @ ''.row.col.'' @ output_dtype config @ ''.''
       @ input_dtype config @ ''.'' @ input_dtype config @ ''.'' @ output_dtype config"

text \<open>
  \<^verbatim>\<open>mma_configs\<close> is a dictionary: an association list in insertion order, and
  \<^verbatim>\<open>dict.update\<close> with a list of new entries. Every constructor of one \<^verbatim>\<open>update\<close> call
  runs before the dictionary changes.
\<close>

fun build_entries :: "(string \<times> (error + MmaConfig)) list \<Rightarrow> error + (string \<times> MmaConfig) list" where
  "build_entries [] = Inr []"
| "build_entries ((key, Inl err) # rest) = Inl err"
| "build_entries ((key, Inr config) # rest) =
     (case build_entries rest of Inl err \<Rightarrow> Inl err | Inr es \<Rightarrow> Inr ((key, config) # es))"

definition dict_update ::
  "(string \<times> (error + MmaConfig)) list \<Rightarrow> (string \<times> MmaConfig) list \<Rightarrow> error + (string \<times> MmaConfig) list" where
  "dict_update new d =
     (case build_entries new of
        Inl err \<Rightarrow> Inl err
      | Inr es \<Rightarrow> Inr (foldl (\<lambda>acc (key, config). AList.update key config acc) d es))"

definition register_mma_configs :: "error + (string \<times> MmaConfig) list" where
  "register_mma_configs =
     (case for_each [''f16'', ''f32''] (\<lambda>output_dtype' d.
             dict_update
               [(''m16n8k8_f16_'' @ output_dtype',
                 new_MmaConfig 16 8 8 ''f16'' output_dtype'
                   (compose (compose (row_repeat 2 1) (row_spatial 8 4)) (row_repeat 1 2))
                   (compose (col_spatial 4 8) (col_repeat 2 1))
                   (compose (compose (row_repeat 2 1) (row_spatial 8 4)) (row_repeat 1 2))),
                (''m16n8k16_f16_'' @ output_dtype',
                 new_MmaConfig 16 8 16 ''f16'' output_dtype'
                   (compose (compose (col_repeat 2 2) (row_spatial 8 4)) (row_repeat 1 2))
                   (compose (compose (col_repeat 2 1) (col_spatial 4 8)) (col_repeat 2 1))
                   (compose (compose (row_repeat 2 1) (row_spatial 8 4)) (row_repeat 1 2)))] d) []
      of Inl err \<Rightarrow> Inl err | Inr d1 \<Rightarrow>
      case dict_update
             [(''m16n8k8_bf16_f32'',
               new_MmaConfig 16 8 8 ''bf16'' ''f32''
                 (compose (compose (row_repeat 2 1) (row_spatial 8 4)) (row_repeat 1 2))
                 (compose (col_spatial 4 8) (col_repeat 2 1))
                 (compose (compose (row_repeat 2 1) (row_spatial 8 4)) (row_repeat 1 2))),
              (''m16n8k16_bf16_f32'',
               new_MmaConfig 16 8 16 ''bf16'' ''f32''
                 (compose (compose (col_repeat 2 2) (row_spatial 8 4)) (row_repeat 1 2))
                 (compose (compose (col_repeat 2 1) (col_spatial 4 8)) (col_repeat 2 1))
                 (compose (compose (row_repeat 2 1) (row_spatial 8 4)) (row_repeat 1 2)))] d1
      of Inl err \<Rightarrow> Inl err | Inr d2 \<Rightarrow>
      dict_update
        [(''m16n8k4_tf32_f32'',
          new_MmaConfig 16 8 4 ''tf32'' ''f32''
            (compose (row_repeat 2 1) (row_spatial 8 4))
            (col_spatial 4 8)
            (compose (compose (row_repeat 2 1) (row_spatial 8 4)) (row_repeat 1 2))),
         (''m16n8k8_tf32_f32'',
          new_MmaConfig 16 8 8 ''tf32'' ''f32''
            (compose (col_repeat 2 2) (row_spatial 8 4))
            (compose (col_repeat 2 1) (col_spatial 4 8))
            (compose (compose (row_repeat 2 1) (row_spatial 8 4)) (row_repeat 1 2)))] d2)"

text \<open>\<^verbatim>\<open>'{' + ', '.join(f'%{i}' for i in range(lo, hi)) + '}' + end\<close>.\<close>

definition placeholder_group :: "int \<Rightarrow> int \<Rightarrow> string \<Rightarrow> string" where
  "placeholder_group lo hi end_mark =
     ''{'' @ join '', '' (map (\<lambda>i. ''%'' @ str_int i) (py_range lo hi)) @ ''}'' @ end_mark"

definition mma_template_string :: "MmaConfig \<Rightarrow> string" where
  "mma_template_string config =
     (let template_sub_strings =
        [inst_name config,
         placeholder_group 0 (c_regs config) '','',
         placeholder_group (c_regs config) (c_regs config + a_regs config) '','',
         placeholder_group (c_regs config + a_regs config)
           (c_regs config + a_regs config + b_regs config) '','',
         placeholder_group 0 (c_regs config) '';'']
      in join '' '' template_sub_strings)"

text \<open>The function the \<^verbatim>\<open>FunctionBuilder\<close> block of \<^verbatim>\<open>register_mma_instructions\<close> builds.\<close>

definition mma_function :: "MmaConfig \<Rightarrow> func" where
  "mma_function config =
     (let a = Var ''a'' (PointerType (ScalarType (input_dtype config)));
          b = Var ''b'' (PointerType (ScalarType (input_dtype config)));
          c = Var ''c'' (PointerType (ScalarType (output_dtype config)));
          ra = Var ''ra'' (PointerType (ScalarType ''uint32''));
          rb = Var ''rb'' (PointerType (ScalarType ''uint32''));
          rc = Var ''rc'' (PointerType (ScalarType ''uint32''))
      in \<lparr> func_name = ''cuda_'' @ replace_char (CHR ''.'') (CHR ''_'') (inst_name config),
           func_kind = ''cuda_device'',
           func_params = [a, b, c],
           func_local_vars = [ra, rb, rc],
           func_body =
             [AssignStmt ra (Cast a (PointerType (ScalarType ''uint32''))),
              AssignStmt rb (Cast b (PointerType (ScalarType ''uint32''))),
              AssignStmt rc (Cast c (PointerType (ScalarType ''uint32''))),
              AsmStmt (mma_template_string config)
                (map (\<lambda>i. (''+r'', TensorElement rc [IntLiteral i])) (py_range 0 (c_regs config)))
                (map (\<lambda>i. (''r'', TensorElement ra [IntLiteral i])) (py_range 0 (a_regs config))
                 @ map (\<lambda>i. (''r'', TensorElement rb [IntLiteral i])) (py_range 0 (b_regs config)))
                False] \<rparr>)"

definition register_mma_instructions :: "(string \<times> MmaConfig) list \<Rightarrow> registry \<Rightarrow> error + registry" where
  "register_mma_instructions mma_configs =
     for_each (map snd mma_configs) (\<lambda>config reg.
       register_primitive_function (func_name (mma_function config)) (mma_function config) reg)"

text \<open>\<^verbatim>\<open>resolve_ldmatrix_func_name\<close>.\<close>

definition resolve_ldmatrix_func_name :: "int \<Rightarrow> bool \<Rightarrow> bool \<Rightarrow> error + string" where
  "resolve_ldmatrix_func_name num shared_space_addr trans' =
     (if num \<notin> set [1, 2, 4]
      then Inl (ValueError ''Only support loading 1, 2, or 4 matrices using ldmatrix instruction.'')
      else Inr (''ldmatrix_x'' @ str_int num @ (if shared_space_addr then ''_shared'' else [])
                @ (if trans' then ''_trans'' else [])))"

section \<open>Reading an assembly template\<close>

text \<open>
  The operand numbers an assembly template names, group by group: a group is the text
  between \<open>{\<close> and \<open>}\<close>, and \<open>%i\<close> names operand \<open>i\<close> of the statement, the outputs
  counted first and the inputs after them.
\<close>

definition digit_value :: "char \<Rightarrow> nat option" where
  "digit_value c = (if c \<in> set ''0123456789'' then Some (of_char c - 48) else None)"

definition flush :: "nat option \<Rightarrow> nat list \<Rightarrow> nat list" where
  "flush cur acc = acc @ (case cur of None \<Rightarrow> [] | Some v \<Rightarrow> [v])"

fun scan_template :: "string \<Rightarrow> bool \<Rightarrow> nat option \<Rightarrow> nat list \<Rightarrow> nat list list" where
  "scan_template [] inside cur acc = (if inside then [flush cur acc] else [])"
| "scan_template (c # cs) inside cur acc =
     (if \<not> inside then scan_template cs (c = CHR ''{'') None []
      else if c = CHR ''}'' then flush cur acc # scan_template cs False None []
      else if c = CHR ''%'' then scan_template cs True (Some 0) (flush cur acc)
      else (case (digit_value c, cur) of
              (Some d, Some v) \<Rightarrow> scan_template cs True (Some (10 * v + d)) acc
            | (_, _) \<Rightarrow> scan_template cs True None (flush cur acc)))"

definition template_groups :: "string \<Rightarrow> nat list list" where
  "template_groups template = scan_template template False None []"

text \<open>The operands a group of a statement's template binds.\<close>

definition group_operands :: "stmt \<Rightarrow> (string \<times> expr) list list" where
  "group_operands s =
     (case s of
        AsmStmt template outputs inputs vol \<Rightarrow>
          map (map (\<lambda>i. (outputs @ inputs) ! i)) (template_groups template)
      | _ \<Rightarrow> [])"

section \<open>The tables the initialisation functions leave behind\<close>

text \<open>
  The module-level dictionary \<^verbatim>\<open>mma_configs\<close> after \<^verbatim>\<open>register_mma_configs\<close> has run, and
  the functions each module has registered once its \<^verbatim>\<open>@initialize()\<close> functions are done
  (empty if one of them raised).
\<close>

definition mma_configs :: "(string \<times> MmaConfig) list" where
  "mma_configs = (case register_mma_configs of Inl _ \<Rightarrow> [] | Inr d \<Rightarrow> d)"

definition mma_registered :: registry where
  "mma_registered = (case register_mma_instructions mma_configs [] of Inl _ \<Rightarrow> [] | Inr r \<Rightarrow> r)"

definition cp_async_registered :: registry where
  "cp_async_registered = (case cp_async_registry of Inl _ \<Rightarrow> [] | Inr r \<Rightarrow> r)"

section \<open>Properties of the uint64 data type\<close>

text \<open>
  C10. For an integer argument \<open>v\<close>, \<open>constant\<close> returns the constant carrying exactly
  \<open>v\<close> if and only if \<open>0 \<le> v \<le> 18446744073709551615\<close>, raises a ValueError otherwise,
  and issues no warning. For a finite float the warning is issued and the value is
  truncated toward zero before the same range check. \<open>zero\<close>, \<open>one\<close>, \<open>min_value\<close> and
  \<open>max_value\<close> return the constants 0, 1, 0 and \<open>2^64 - 1\<close>.
\<close>

theorem uint64_constant_range:
  "(snd (uint64_constant (PyInt v)) = Inr (Constant v (ScalarType ''uint64''))
      \<longleftrightarrow> 0 \<le> v \<and> v \<le> 18446744073709551615)
   \<and> ((\<exists>msg. snd (uint64_constant (PyInt v)) = Inl (ValueError msg))
      \<longleftrightarrow> \<not> (0 \<le> v \<and> v \<le> 18446744073709551615))
   \<and> fst (uint64_constant (PyInt v)) = []
   \<and> fst (uint64_constant (PyFloat f)) \<noteq> []
   \<and> snd (uint64_constant (PyFloat (FloatFinite m e)))
        = snd (uint64_constant (PyInt (if 0 \<le> e then m * 2 ^ nat e
                                       else if 0 \<le> m then m div 2 ^ nat (- e)
                                       else - ((- m) div 2 ^ nat (- e)))))
   \<and> snd uint64_zero = Inr (Constant 0 (ScalarType ''uint64''))
   \<and> snd uint64_one = Inr (Constant 1 (ScalarType ''uint64''))
   \<and> snd uint64_min_value = Inr (Constant 0 (ScalarType ''uint64''))
   \<and> snd uint64_max_value = Inr (Constant (2 ^ 64 - 1) (ScalarType ''uint64''))"
  by (simp add: uint64_constant_def uint64_name_def uint64_zero_def uint64_one_def
      uint64_min_value_def uint64_max_value_def trunc_div_def Let_def)

section \<open>Properties of the register count\<close>

lemma bits_bytes: "(8 * (x::int)) mod (32 * 32) \<noteq> 0 \<longleftrightarrow> x mod (4 * 32) \<noteq> 0"
proof -
  have "(8 * x) mod (8 * 128) = 8 * (x mod 128)"
    by (simp only: mult_mod_right)
  then show ?thesis by simp
qed

text \<open>
  C5, as the spec states it, fails: 128 elements of 16 bits are 256 bytes, and
  \<open>num_regs\<close> returns \<open>256 div 128 = 2\<close> registers per lane, not 1.
\<close>

theorem num_regs_f16_128_counterexample:
  "num_regs (\<lambda>_. 2) ''f16'' 128 \<noteq> Inr 1"
  by (simp add: num_regs_def)

text \<open>
  C5, amended. For 128 elements of a 2-byte type \<open>num_regs\<close> returns 2 registers per
  lane. It fails its assertion exactly when the total byte count is not divisible by
  \<open>4 * 32\<close>, which is exactly when the total bit count is not divisible by 32 registers of
  32 bits; otherwise it returns the byte count divided by \<open>4 * 32\<close>, with no remainder.
\<close>

theorem num_regs_bytes:
  "(nbytes dt = 2 \<longrightarrow> num_regs nbytes dt 128 = Inr 2)
   \<and> (num_regs nbytes dt count = Inl AssertionError \<longleftrightarrow> (nbytes dt * count) mod (4 * 32) \<noteq> 0)
   \<and> ((\<exists>r. num_regs nbytes dt count = Inr r) \<longleftrightarrow> (nbytes dt * count) mod (4 * 32) = 0)
   \<and> ((8 * (nbytes dt * count)) mod (32 * 32) \<noteq> 0 \<longleftrightarrow> (nbytes dt * count) mod (4 * 32) \<noteq> 0)
   \<and> (\<forall>r. num_regs nbytes dt count = Inr r \<longrightarrow> r * (4 * 32) = nbytes dt * count)"
proof (intro conjI)
  show "nbytes dt = 2 \<longrightarrow> num_regs nbytes dt 128 = Inr 2"
    by (simp add: num_regs_def)
  show "num_regs nbytes dt count = Inl AssertionError \<longleftrightarrow> (nbytes dt * count) mod (4 * 32) \<noteq> 0"
    by (simp add: num_regs_def Let_def)
  show "(\<exists>r. num_regs nbytes dt count = Inr r) \<longleftrightarrow> (nbytes dt * count) mod (4 * 32) = 0"
    by (simp add: num_regs_def Let_def)
  show "(8 * (nbytes dt * count)) mod (32 * 32) \<noteq> 0 \<longleftrightarrow> (nbytes dt * count) mod (4 * 32) \<noteq> 0"
    by (rule bits_bytes)
  show "\<forall>r. num_regs nbytes dt count = Inr r \<longrightarrow> r * (4 * 32) = nbytes dt * count"
  proof (intro allI impI)
    fix r assume r: "num_regs nbytes dt count = Inr r"
    define x where "x = nbytes dt * count"
    from r have "x mod 128 = 0" and "r = x div 128"
      by (simp_all add: num_regs_def Let_def x_def split: if_splits)
    then have "r * 128 = x" using div_mult_mod_eq [of x 128] by simp
    then show "r * (4 * 32) = nbytes dt * count" by (simp add: x_def)
  qed
qed

theorem num_regs_bytes_witness:
  "num_regs (\<lambda>_. 2) ''f16'' 128 = Inr 2
   \<and> num_regs (\<lambda>_. 2) ''f16'' 100 = Inl AssertionError
   \<and> (8 * (2 * 100)) mod (32 * 32) \<noteq> (0::int)"
  using num_regs_bytes [of "\<lambda>_. 2" "''f16''" 100] by simp

end
